theory Spec2Isabelle
  imports Complex_Main
begin

section \<open>The Tokens screen: data\<close>

text \<open>
  The repository holds the Tokens component twice: \<^verbatim>\<open>src/src/components/token/Tokens.js\<close>,
  whose handlers call \<^verbatim>\<open>onSearchButtonClicked\<close> directly, and \<^verbatim>\<open>src/unnamed/part_001\<close>, where
  a search is started by raising the \<^verbatim>\<open>isSearchLoading\<close> flag and carried out by an effect.
  Definitions without a suffix embed the first file; definitions ending in \<open>_fx\<close> embed the
  effect-driven file. Paging and rendering are the same text in both.

  A function component is re-run on every render, and each run binds the state variables as
  constants. A handler therefore reads the state of the render that created it (its closure,
  the argument \<open>c\<close> below), while the setters write the component's current state (the argument
  \<open>live\<close>). A click on the rendered screen runs a handler with \<open>c = live\<close>; a handler called
  by another one after that one has already called setters runs with \<open>c\<close> older than \<open>live\<close>.
\<close>

text \<open>One value of an Elasticsearch \<^verbatim>\<open>sort\<close> array; a cursor (\<^verbatim>\<open>searchAfter\<close>) is such an array.\<close>

datatype sortval = SNum int | SStr string

type_synonym cursor = "sortval list"

text \<open>A hit as \<^verbatim>\<open>tokensApi.getList\<close> delivers it (only the fields the component reads; an
  absent field is \<open>None\<close>), and a row as \<^verbatim>\<open>getTokens\<close> hands it on
  (\<^verbatim>\<open>{...token, uid: token.id, nft: get(token, 'nft', false)}\<close>).\<close>

record hit =
  hit_id :: string
  hit_sort :: "cursor option"
  hit_nft :: "bool option"

record token =
  token_id :: string
  token_sort :: "cursor option"
  uid :: string
  nft :: bool

record 'a tokens_data =
  hits :: "'a list"
  has_next :: bool

text \<open>What a call of \<^verbatim>\<open>tokensApi.getList\<close> resolves to: both fields may be absent.\<close>

record api_response =
  resp_error :: "bool option"
  resp_data :: "hit tokens_data option"

text \<open>The four arguments of one call of \<^verbatim>\<open>tokensApi.getList\<close>.\<close>

record request =
  req_searchText :: string
  req_sortBy :: string
  req_order :: string
  req_searchAfter :: cursor

text \<open>An element of \<^verbatim>\<open>pageSearchAfter\<close>: \<^verbatim>\<open>{ page, searchAfter }\<close>.\<close>

record cursor_entry =
  entry_page :: int
  searchAfter :: cursor

text \<open>The object of \<^verbatim>\<open>pagination.current.obtainQueryParams()\<close> (class \<^verbatim>\<open>PaginationURL\<close> is not
  among the sources: its result is a parameter of the mount effect), and the object given to
  \<^verbatim>\<open>setURLParameters\<close>, which stands for the URL pushed to the history.\<close>

record query_params =
  qp_searchText :: "string option"
  qp_sortBy :: "string option"
  qp_order :: "string option"

record url_parameters =
  url_searchText :: string
  url_sortBy :: string
  url_order :: string

text \<open>The twelve \<^verbatim>\<open>useState\<close> cells of the component.\<close>

record tokens_state =
  tokens :: "token list"
  hasAfter :: bool
  hasBefore :: bool
  searchText :: string
  sortBy :: string
  order :: string
  page :: int
  pageSearchAfter :: "cursor_entry list"
  isLoading :: bool
  isSearchLoading :: bool
  calculatingPage :: bool
  error :: bool

definition initial_state :: tokens_state where
  "initial_state =
     \<lparr>tokens = [], hasAfter = False, hasBefore = False, searchText = [],
      sortBy = ''transaction_timestamp'', order = ''desc'', page = 1, pageSearchAfter = [],
      isLoading = False, isSearchLoading = False, calculatingPage = False, error = False\<rparr>"

text \<open>What running a handler (or an effect) to its end does: the state while its request is
  in flight, the calls of \<^verbatim>\<open>tokensApi.getList\<close> it made, the state once it has finished, and
  the URLs it pushed.\<close>

record outcome =
  awaiting :: tokens_state
  issued :: "request list"
  settled :: tokens_state
  pushed :: "url_parameters list"

subsection \<open>lodash and JavaScript operators\<close>

text \<open>\<^verbatim>\<open>get(object, key, default)\<close> for a field that may be absent.\<close>

definition get_or :: "'a option \<Rightarrow> 'a \<Rightarrow> 'a" where
  "get_or field dflt = (case field of None \<Rightarrow> dflt | Some v \<Rightarrow> v)"

text \<open>\<^verbatim>\<open>last(array)\<close>: \<^verbatim>\<open>undefined\<close> on the empty array.\<close>

definition last_of :: "'a list \<Rightarrow> 'a option" where
  "last_of xs = (if xs = [] then None else Some (last xs))"

text \<open>\<^verbatim>\<open>isEmpty(array)\<close>.\<close>

definition isEmpty :: "'a list \<Rightarrow> bool" where
  "isEmpty xs = (xs = [])"

text \<open>\<^verbatim>\<open>get(find(pageSearchAfter, { page: n }), 'searchAfter', [])\<close>: the cursor of the first
  entry for page \<open>n\<close>, the empty cursor when there is none.\<close>

definition find_page :: "cursor_entry list \<Rightarrow> int \<Rightarrow> cursor_entry option" where
  "find_page table n = find (\<lambda>e. entry_page e = n) table"

definition searchAfter_of :: "cursor_entry list \<Rightarrow> int \<Rightarrow> cursor" where
  "searchAfter_of table n =
     (case find_page table n of None \<Rightarrow> [] | Some e \<Rightarrow> searchAfter e)"

text \<open>\<^verbatim>\<open>get(last(tokens), 'sort', [])\<close>.\<close>

definition lastCurrentTokenSort :: "token list \<Rightarrow> cursor" where
  "lastCurrentTokenSort rows =
     (case last_of rows of None \<Rightarrow> [] | Some t \<Rightarrow> get_or (token_sort t) [])"

text \<open>\<^verbatim>\<open>a || b\<close> where \<open>a\<close> is a string, \<^verbatim>\<open>null\<close> or \<^verbatim>\<open>undefined\<close>: the empty string is falsy.\<close>

definition or_else :: "string option \<Rightarrow> string \<Rightarrow> string" where
  "or_else a b = (case a of None \<Rightarrow> b | Some v \<Rightarrow> if v = [] then b else v)"

section \<open>Tokens.js\<close>

subsection \<open>getTokens\<close>

text \<open>\<^verbatim>\<open>getTokens\<close> calls \<^verbatim>\<open>tokensApi.getList(searchText, sortBy, order, searchAfter)\<close> with the
  state of its closure, and when the call resolves sets \<^verbatim>\<open>error\<close> and maps the hits.\<close>

definition getTokens_call :: "tokens_state \<Rightarrow> cursor \<Rightarrow> request" where
  "getTokens_call c cur =
     \<lparr>req_searchText = searchText c, req_sortBy = sortBy c, req_order = order c,
      req_searchAfter = cur\<rparr>"

definition to_token :: "hit \<Rightarrow> token" where
  "to_token h =
     \<lparr>token_id = hit_id h, token_sort = hit_sort h, uid = hit_id h,
      nft = get_or (hit_nft h) False\<rparr>"

definition getTokens_result :: "api_response \<Rightarrow> token tokens_data" where
  "getTokens_result tokensRequest =
     (let d = get_or (resp_data tokensRequest) \<lparr>hits = [], has_next = False\<rparr>
      in \<lparr>hits = map to_token (hits d), has_next = has_next d\<rparr>)"

definition getTokens_resolved :: "api_response \<Rightarrow> tokens_state \<Rightarrow> token tokens_data \<times> tokens_state" where
  "getTokens_resolved tokensRequest live =
     (getTokens_result tokensRequest,
      live\<lparr>error := get_or (resp_error tokensRequest) False\<rparr>)"

subsection \<open>Search\<close>

definition updateURL :: "string \<Rightarrow> string \<Rightarrow> string \<Rightarrow> url_parameters" where
  "updateURL newSearchText newSortBy newOrder =
     \<lparr>url_searchText = newSearchText, url_sortBy = newSortBy, url_order = newOrder\<rparr>"

text \<open>\<^verbatim>\<open>onSearchButtonClicked(newSearchText, newSortBy, newOrder)\<close> raises
  \<^verbatim>\<open>isSearchLoading\<close>, awaits \<^verbatim>\<open>getTokens([])\<close>, then resets paging and pushes the URL. An
  argument that is \<^verbatim>\<open>null\<close>, \<^verbatim>\<open>undefined\<close> or missing is \<open>None\<close>.\<close>

definition onSearchButtonClicked ::
  "string option \<Rightarrow> string option \<Rightarrow> string option \<Rightarrow> tokens_state \<Rightarrow> tokens_state
     \<Rightarrow> api_response \<Rightarrow> outcome" where
  "onSearchButtonClicked newSearchText newSortBy newOrder c live resp =
     (let live1 = live\<lparr>isSearchLoading := True\<rparr>;
          (gottenTokens, live2) = getTokens_resolved resp live1
      in \<lparr>awaiting = live1,
          issued = [getTokens_call c []],
          settled = live2\<lparr>isSearchLoading := False, page := 1, tokens := hits gottenTokens,
                          hasAfter := has_next gottenTokens, hasBefore := False,
                          pageSearchAfter := [\<lparr>entry_page = 1, searchAfter = []\<rparr>]\<rparr>,
          pushed = [updateURL (or_else newSearchText (searchText c))
                              (or_else newSortBy (sortBy c)) (or_else newOrder (order c))]\<rparr>)"

text \<open>\<^verbatim>\<open>onSearchTextChanged\<close> stores the field's value; \<^verbatim>\<open>onSearchTextKeyUp\<close> searches on Enter
  and does nothing on any other key.\<close>

definition onSearchTextChanged :: "string \<Rightarrow> tokens_state \<Rightarrow> tokens_state" where
  "onSearchTextChanged v live = live\<lparr>searchText := v\<rparr>"

definition nothing_done :: "tokens_state \<Rightarrow> outcome" where
  "nothing_done live = \<lparr>awaiting = live, issued = [], settled = live, pushed = []\<rparr>"

definition onSearchTextKeyUp :: "string \<Rightarrow> tokens_state \<Rightarrow> tokens_state \<Rightarrow> api_response \<Rightarrow> outcome" where
  "onSearchTextKeyUp key c live resp =
     (if key = ''Enter'' then onSearchButtonClicked None None None c live resp
      else nothing_done live)"

subsection \<open>The effect run on mount\<close>

text \<open>The effect belongs to the first render, so the \<^verbatim>\<open>onSearchButtonClicked\<close> it awaits is
  the first render's: its closure \<open>c\<close> is the state of that render, while the three setters
  called before it have already written \<open>live\<close>.\<close>

definition mount_effect :: "bool \<Rightarrow> query_params \<Rightarrow> tokens_state \<Rightarrow> api_response \<Rightarrow> outcome" where
  "mount_effect maintenanceMode queryParams c resp =
     (if maintenanceMode then nothing_done c
      else
        let newSearchText = get_or (qp_searchText queryParams) (searchText c);
            newSortBy = get_or (qp_sortBy queryParams) (sortBy c);
            newOrder = get_or (qp_order queryParams) (order c);
            live = c\<lparr>searchText := newSearchText, sortBy := newSortBy, order := newOrder,
                     isLoading := False\<rparr>;
            out = onSearchButtonClicked (Some newSearchText) (Some newSortBy) (Some newOrder)
                    c live resp
        in out\<lparr>settled := (settled out)\<lparr>isLoading := False\<rparr>\<rparr>)"

subsection \<open>Paging\<close>

definition nextPageClicked :: "tokens_state \<Rightarrow> tokens_state \<Rightarrow> api_response \<Rightarrow> outcome" where
  "nextPageClicked c live resp =
     (let live1 = live\<lparr>calculatingPage := True\<rparr>;
          nextPage = page c + 1;
          found = searchAfter_of (pageSearchAfter c) nextPage;
          lastSort = lastCurrentTokenSort (tokens c);
          newEntry = \<lparr>entry_page = nextPage, searchAfter = lastSort\<rparr>;
          live2 = (if isEmpty found
                   then live1\<lparr>pageSearchAfter := pageSearchAfter c @ [newEntry]\<rparr>
                   else live1);
          cur = (if isEmpty found then lastSort else found);
          (gottenTokens, live3) = getTokens_resolved resp live2
      in \<lparr>awaiting = live2,
          issued = [getTokens_call c cur],
          settled = live3\<lparr>tokens := hits gottenTokens, hasAfter := has_next gottenTokens,
                          hasBefore := True, page := nextPage, calculatingPage := False\<rparr>,
          pushed = []\<rparr>)"

definition previousPageClicked :: "tokens_state \<Rightarrow> tokens_state \<Rightarrow> api_response \<Rightarrow> outcome" where
  "previousPageClicked c live resp =
     (let live1 = live\<lparr>calculatingPage := True\<rparr>;
          previousPage = page c - 1;
          cur = searchAfter_of (pageSearchAfter c) previousPage;
          (gottenTokens, live2) = getTokens_resolved resp live1
      in \<lparr>awaiting = live1,
          issued = [getTokens_call c cur],
          settled = live2\<lparr>tokens := hits gottenTokens, hasAfter := True,
                          hasBefore := (previousPage \<noteq> 1), page := previousPage,
                          calculatingPage := False\<rparr>,
          pushed = []\<rparr>)"

subsection \<open>Sorting by a column\<close>

definition newOrder_of :: "string \<Rightarrow> tokens_state \<Rightarrow> string" where
  "newOrder_of headerName c =
     (if headerName = sortBy c then (if order c = ''asc'' then ''desc'' else ''asc'')
      else ''asc'')"

definition tableHeaderClicked :: "string \<Rightarrow> tokens_state \<Rightarrow> tokens_state \<Rightarrow> api_response \<Rightarrow> outcome" where
  "tableHeaderClicked headerName c live resp =
     (let newOrder = newOrder_of headerName c;
          live1 = (if headerName = sortBy c then live else live\<lparr>sortBy := headerName\<rparr>);
          live2 = live1\<lparr>order := newOrder\<rparr>
      in onSearchButtonClicked None (Some headerName) (Some newOrder) c live2 resp)"

subsection \<open>Rendering\<close>

text \<open>The three elements the component can return, with the data props they are given
  (\<^verbatim>\<open>TokenSearchField\<close>: searchText, isSearchLoading, loading; \<^verbatim>\<open>TokensTable\<close>: data,
  hasBefore, hasAfter, loading, sortBy, order, calculatingPage). The callback props are
  listed by \<open>offers\<close> below.\<close>

datatype element =
  ErrorMessageWithIcon string
| TokenSearchField string bool bool
| TokensTable "token list" bool bool bool string string bool

definition renderSearchField :: "bool \<Rightarrow> tokens_state \<Rightarrow> element" where
  "renderSearchField maintenanceMode c =
     (if maintenanceMode
      then ErrorMessageWithIcon
             ''This feature is under maintenance. Please try again after some time''
      else TokenSearchField (searchText c) (isSearchLoading c) (isLoading c))"

definition renderTokensTable :: "bool \<Rightarrow> tokens_state \<Rightarrow> element option" where
  "renderTokensTable maintenanceMode c =
     (if maintenanceMode then None
      else if error c then Some (ErrorMessageWithIcon ''Error loading tokens. Please try again.'')
      else Some (TokensTable (tokens c) (hasBefore c) (hasAfter c) (isLoading c) (sortBy c)
                   (order c) (calculatingPage c)))"

subsection \<open>A screen in use\<close>

text \<open>What the user can do to a rendered screen, each with the response that the request
  it leads to (if any) resolves to. A callback can only be invoked through an element that
  was given it as a prop.\<close>

datatype event =
  SearchTextChanged string api_response
| SearchTextKeyUp string api_response
| SearchButtonClicked api_response
| NextPageClicked api_response
| PreviousPageClicked api_response
| TableHeaderClicked string api_response

fun offers :: "element \<Rightarrow> event \<Rightarrow> bool" where
  "offers (TokenSearchField _ _ _) (SearchTextChanged _ _) = True"
| "offers (TokenSearchField _ _ _) (SearchTextKeyUp _ _) = True"
| "offers (TokenSearchField _ _ _) (SearchButtonClicked _) = True"
| "offers (TokensTable _ _ _ _ _ _ _) (NextPageClicked _) = True"
| "offers (TokensTable _ _ _ _ _ _ _) (PreviousPageClicked _) = True"
| "offers (TokensTable _ _ _ _ _ _ _) (TableHeaderClicked _ _) = True"
| "offers _ _ = False"

definition offered :: "bool \<Rightarrow> tokens_state \<Rightarrow> event \<Rightarrow> bool" where
  "offered maintenanceMode c e =
     (offers (renderSearchField maintenanceMode c) e \<or>
      (case renderTokensTable maintenanceMode c of None \<Rightarrow> False | Some el \<Rightarrow> offers el e))"

text \<open>The screen together with everything it has sent out so far.\<close>

record screen =
  st :: tokens_state
  calls :: "request list"
  history :: "url_parameters list"

definition after :: "screen \<Rightarrow> outcome \<Rightarrow> screen" where
  "after w out =
     \<lparr>st = settled out, calls = calls w @ issued out, history = history w @ pushed out\<rparr>"

definition mounted :: "bool \<Rightarrow> query_params \<Rightarrow> api_response \<Rightarrow> screen" where
  "mounted maintenanceMode queryParams resp =
     after \<lparr>st = initial_state, calls = [], history = []\<rparr>
       (mount_effect maintenanceMode queryParams initial_state resp)"

text \<open>An event runs the handler of the render on screen, so its closure is the current
  state, and the next event finds the screen as that handler left it once its fetch had
  resolved. The search button, like Enter, calls \<^verbatim>\<open>onSearchButtonClicked\<close> without
  arguments.\<close>

fun handler :: "event \<Rightarrow> tokens_state \<Rightarrow> outcome" where
  "handler (SearchTextChanged v resp) c = nothing_done (onSearchTextChanged v c)"
| "handler (SearchTextKeyUp key resp) c = onSearchTextKeyUp key c c resp"
| "handler (SearchButtonClicked resp) c = onSearchButtonClicked None None None c c resp"
| "handler (NextPageClicked resp) c = nextPageClicked c c resp"
| "handler (PreviousPageClicked resp) c = previousPageClicked c c resp"
| "handler (TableHeaderClicked headerName resp) c = tableHeaderClicked headerName c c resp"

definition handle :: "bool \<Rightarrow> screen \<Rightarrow> event \<Rightarrow> screen" where
  "handle maintenanceMode w e =
     (if offered maintenanceMode (st w) e then after w (handler e (st w)) else w)"

fun run :: "bool \<Rightarrow> screen \<Rightarrow> event list \<Rightarrow> screen" where
  "run maintenanceMode w [] = w"
| "run maintenanceMode w (e # es) = run maintenanceMode (handle maintenanceMode w e) es"

section \<open>The effect-driven file (part_001)\<close>

text \<open>Here \<^verbatim>\<open>getTokens\<close> takes the query as arguments, and the handlers only write state. The
  search itself is the effect with dependencies \<^verbatim>\<open>[isSearchLoading, searchText, sortBy, order,
  getTokens, history]\<close>: after a render in which one of the first four differs from the render
  before, it runs with that render's state, returns at once unless \<^verbatim>\<open>isSearchLoading\<close> is
  set, and otherwise pushes the URL and fetches page 1.\<close>

definition getTokens_call_fx :: "cursor \<Rightarrow> string \<Rightarrow> string \<Rightarrow> string \<Rightarrow> request" where
  "getTokens_call_fx cur newSearchText newSortBy newOrder =
     \<lparr>req_searchText = newSearchText, req_sortBy = newSortBy, req_order = newOrder,
      req_searchAfter = cur\<rparr>"

definition mount_effect_fx :: "bool \<Rightarrow> query_params \<Rightarrow> tokens_state \<Rightarrow> tokens_state" where
  "mount_effect_fx maintenanceMode queryParams live =
     (if maintenanceMode then live
      else live\<lparr>searchText := get_or (qp_searchText queryParams) [],
                sortBy := get_or (qp_sortBy queryParams) [],
                order := get_or (qp_order queryParams) [],
                isLoading := False, isSearchLoading := True\<rparr>)"

definition search_effect_fx :: "tokens_state \<Rightarrow> tokens_state \<Rightarrow> api_response \<Rightarrow> outcome" where
  "search_effect_fx c live resp =
     (if \<not> isSearchLoading c then nothing_done live
      else
        let (apiTokens, live1) = getTokens_resolved resp live
        in \<lparr>awaiting = live,
            issued = [getTokens_call_fx [] (searchText c) (sortBy c) (order c)],
            settled = live1\<lparr>isSearchLoading := False, page := 1, tokens := hits apiTokens,
                            hasAfter := has_next apiTokens, hasBefore := False,
                            pageSearchAfter := [\<lparr>entry_page = 1, searchAfter = []\<rparr>]\<rparr>,
            pushed = [\<lparr>url_searchText = or_else (Some (searchText c)) [],
                       url_sortBy = or_else (Some (sortBy c)) [],
                       url_order = or_else (Some (order c)) []\<rparr>]\<rparr>)"

definition deps_changed :: "tokens_state \<Rightarrow> tokens_state \<Rightarrow> bool" where
  "deps_changed prev cur =
     (isSearchLoading prev \<noteq> isSearchLoading cur \<or> searchText prev \<noteq> searchText cur \<or>
      sortBy prev \<noteq> sortBy cur \<or> order prev \<noteq> order cur)"

text \<open>The render that follows a handler: \<open>prev\<close> is the state of the render before.\<close>

definition rendered_fx :: "tokens_state \<Rightarrow> tokens_state \<Rightarrow> api_response \<Rightarrow> outcome" where
  "rendered_fx prev cur resp =
     (if deps_changed prev cur then search_effect_fx cur cur resp else nothing_done cur)"

definition onSearchButtonClicked_fx :: "tokens_state \<Rightarrow> tokens_state" where
  "onSearchButtonClicked_fx live = live\<lparr>isSearchLoading := True\<rparr>"

definition onSearchTextKeyUp_fx :: "string \<Rightarrow> tokens_state \<Rightarrow> tokens_state" where
  "onSearchTextKeyUp_fx key live =
     (if key = ''Enter'' then live\<lparr>isSearchLoading := True\<rparr> else live)"

definition tableHeaderClicked_fx :: "string \<Rightarrow> tokens_state \<Rightarrow> tokens_state \<Rightarrow> tokens_state" where
  "tableHeaderClicked_fx headerName c live =
     (let newOrder = newOrder_of headerName c;
          live1 = (if headerName = sortBy c then live else live\<lparr>sortBy := headerName\<rparr>);
          live2 = live1\<lparr>order := newOrder\<rparr>
      in live2\<lparr>isSearchLoading := True\<rparr>)"

definition nextPageClicked_fx :: "tokens_state \<Rightarrow> tokens_state \<Rightarrow> api_response \<Rightarrow> outcome" where
  "nextPageClicked_fx c live resp =
     (let live1 = live\<lparr>calculatingPage := True\<rparr>;
          nextPage = page c + 1;
          found = searchAfter_of (pageSearchAfter c) nextPage;
          lastSort = lastCurrentTokenSort (tokens c);
          newEntry = \<lparr>entry_page = nextPage, searchAfter = lastSort\<rparr>;
          live2 = (if isEmpty found
                   then live1\<lparr>pageSearchAfter := pageSearchAfter c @ [newEntry]\<rparr>
                   else live1);
          cur = (if isEmpty found then lastSort else found);
          (gottenTokens, live3) = getTokens_resolved resp live2
      in \<lparr>awaiting = live2,
          issued = [getTokens_call_fx cur (searchText c) (sortBy c) (order c)],
          settled = live3\<lparr>tokens := hits gottenTokens, hasAfter := has_next gottenTokens,
                          hasBefore := True, page := nextPage, calculatingPage := False\<rparr>,
          pushed = []\<rparr>)"

definition previousPageClicked_fx :: "tokens_state \<Rightarrow> tokens_state \<Rightarrow> api_response \<Rightarrow> outcome" where
  "previousPageClicked_fx c live resp =
     (let live1 = live\<lparr>calculatingPage := True\<rparr>;
          previousPage = page c - 1;
          cur = searchAfter_of (pageSearchAfter c) previousPage;
          (gottenTokens, live2) = getTokens_resolved resp live1
      in \<lparr>awaiting = live1,
          issued = [getTokens_call_fx cur (searchText c) (sortBy c) (order c)],
          settled = live2\<lparr>tokens := hits gottenTokens, hasAfter := True,
                          hasBefore := (previousPage \<noteq> 1), page := previousPage,
                          calculatingPage := False\<rparr>,
          pushed = []\<rparr>)"

text \<open>Two outcomes one after the other.\<close>

definition and_then :: "outcome \<Rightarrow> outcome \<Rightarrow> outcome" where
  "and_then a b =
     \<lparr>awaiting = awaiting b, issued = issued a @ issued b, settled = settled b,
      pushed = pushed a @ pushed b\<rparr>"

text \<open>On mount both effects run after the first render, the search effect with that render's
  \<^verbatim>\<open>isSearchLoading\<close>; the render that follows runs the search effect again if the mount
  effect changed a dependency.\<close>

definition mounted_fx :: "bool \<Rightarrow> query_params \<Rightarrow> api_response \<Rightarrow> screen" where
  "mounted_fx maintenanceMode queryParams resp =
     (let live = mount_effect_fx maintenanceMode queryParams initial_state
      in after \<lparr>st = initial_state, calls = [], history = []\<rparr>
           (and_then (search_effect_fx initial_state live resp)
                     (rendered_fx initial_state live resp)))"

fun handler_fx :: "event \<Rightarrow> tokens_state \<Rightarrow> outcome" where
  "handler_fx (SearchTextChanged v resp) c = rendered_fx c (onSearchTextChanged v c) resp"
| "handler_fx (SearchTextKeyUp key resp) c = rendered_fx c (onSearchTextKeyUp_fx key c) resp"
| "handler_fx (SearchButtonClicked resp) c = rendered_fx c (onSearchButtonClicked_fx c) resp"
| "handler_fx (NextPageClicked resp) c = nextPageClicked_fx c c resp"
| "handler_fx (PreviousPageClicked resp) c = previousPageClicked_fx c c resp"
| "handler_fx (TableHeaderClicked headerName resp) c =
     rendered_fx c (tableHeaderClicked_fx headerName c c) resp"

definition handle_fx :: "bool \<Rightarrow> screen \<Rightarrow> event \<Rightarrow> screen" where
  "handle_fx maintenanceMode w e =
     (if offered maintenanceMode (st w) e then after w (handler_fx e (st w)) else w)"

fun run_fx :: "bool \<Rightarrow> screen \<Rightarrow> event list \<Rightarrow> screen" where
  "run_fx maintenanceMode w [] = w"
| "run_fx maintenanceMode w (e # es) = run_fx maintenanceMode (handle_fx maintenanceMode w e) es"

section \<open>The dashboard reducer\<close>

text \<open>The reducer is the third part of \<^verbatim>\<open>src/src/screens/TransactionList.js\<close>. Its numbers
  are JavaScript numbers, 64-bit binary floating point: a \<open>number\<close> is a finite value, an
  infinity or \<^verbatim>\<open>NaN\<close>. The finite values of the format are among the \<open>Fin x\<close>; the two zeros
  are one value here, which the reducer cannot tell apart: it compares with \<^verbatim>\<open>=== 0\<close>, takes
  \<^verbatim>\<open>Math.max(0, _)\<close>, and never divides by a zero.\<close>

datatype number = Fin real | PosInf | NegInf | NaN

text \<open>\<open>pow2 k\<close> is \<open>2\<close> to the power \<open>k\<close>. \<open>to_double x\<close> is the exact result \<open>x\<close> of an
  operation as the format delivers it: rounded to the nearest value with a 53-bit significand
  (the spacing is \<open>2\<close> to the \<open>e - 52\<close> for a magnitude from \<open>2\<close> to the \<open>e\<close> upwards, and
  \<open>2\<close> to the \<open>-1074\<close> at the bottom of the range), ties to the even significand, and an
  infinity once the rounded magnitude reaches \<open>2\<close> to the \<open>1024\<close>.\<close>

definition pow2 :: "int \<Rightarrow> real" where
  "pow2 k = (if 0 \<le> k then 2 ^ nat k else inverse (2 ^ nat (- k)))"

definition round_half_even :: "real \<Rightarrow> int" where
  "round_half_even y =
     (let f = \<lfloor>y\<rfloor>
      in if y - of_int f < 1 / 2 then f
         else if 1 / 2 < y - of_int f then f + 1
         else if even f then f else f + 1)"

definition to_double :: "real \<Rightarrow> number" where
  "to_double x =
     (if x = 0 then Fin 0
      else
        let e = max \<lfloor>log 2 \<bar>x\<bar>\<rfloor> (- 1022);
            u = pow2 (e - 52);
            r = of_int (round_half_even (x / u)) * u
        in if pow2 1024 \<le> \<bar>r\<bar> then (if 0 < x then PosInf else NegInf) else Fin r)"


text \<open>\<^verbatim>\<open>a - b\<close>, \<^verbatim>\<open>a * b\<close>, \<^verbatim>\<open>a / b\<close> and \<^verbatim>\<open>Math.max(a, b)\<close>. A zero divisor is taken as
  \<^verbatim>\<open>+0\<close>.\<close>

fun js_sub :: "number \<Rightarrow> number \<Rightarrow> number" where
  "js_sub NaN _ = NaN"
| "js_sub _ NaN = NaN"
| "js_sub (Fin a) (Fin b) = to_double (a - b)"
| "js_sub (Fin a) PosInf = NegInf"
| "js_sub (Fin a) NegInf = PosInf"
| "js_sub PosInf PosInf = NaN"
| "js_sub PosInf _ = PosInf"
| "js_sub NegInf NegInf = NaN"
| "js_sub NegInf _ = NegInf"

fun js_mul :: "number \<Rightarrow> number \<Rightarrow> number" where
  "js_mul NaN _ = NaN"
| "js_mul _ NaN = NaN"
| "js_mul (Fin a) (Fin b) = to_double (a * b)"
| "js_mul (Fin a) PosInf = (if a = 0 then NaN else if 0 < a then PosInf else NegInf)"
| "js_mul (Fin a) NegInf = (if a = 0 then NaN else if 0 < a then NegInf else PosInf)"
| "js_mul PosInf (Fin b) = (if b = 0 then NaN else if 0 < b then PosInf else NegInf)"
| "js_mul NegInf (Fin b) = (if b = 0 then NaN else if 0 < b then NegInf else PosInf)"
| "js_mul PosInf PosInf = PosInf"
| "js_mul PosInf NegInf = NegInf"
| "js_mul NegInf PosInf = NegInf"
| "js_mul NegInf NegInf = PosInf"

fun js_div :: "number \<Rightarrow> number \<Rightarrow> number" where
  "js_div NaN _ = NaN"
| "js_div _ NaN = NaN"
| "js_div (Fin a) (Fin b) =
     (if b = 0 then (if a = 0 then NaN else if 0 < a then PosInf else NegInf)
      else to_double (a / b))"
| "js_div (Fin a) PosInf = Fin 0"
| "js_div (Fin a) NegInf = Fin 0"
| "js_div PosInf (Fin b) = (if 0 \<le> b then PosInf else NegInf)"
| "js_div NegInf (Fin b) = (if 0 \<le> b then NegInf else PosInf)"
| "js_div PosInf _ = NaN"
| "js_div NegInf _ = NaN"

fun math_max :: "number \<Rightarrow> number \<Rightarrow> number" where
  "math_max NaN _ = NaN"
| "math_max _ NaN = NaN"
| "math_max PosInf _ = PosInf"
| "math_max _ PosInf = PosInf"
| "math_max NegInf b = b"
| "math_max a NegInf = a"
| "math_max (Fin a) (Fin b) = Fin (max a b)"

text \<open>An element of the \<^verbatim>\<open>data\<close> list, with the fields the reducer reads or writes. \<^verbatim>\<open>date\<close>
  holds the number the \<^verbatim>\<open>Date\<close> is built from; \<^verbatim>\<open>txRate\<close> is \<open>None\<close> while the property is not
  set. \<^verbatim>\<open>DASHBOARD_CHART_TIME\<close> is imported from a file that is not among the sources and is
  a parameter of the reducer.\<close>

record sample =
  date :: number
  transactions :: number
  time :: number
  txRate :: "number option"

record payload =
  payload_transactions :: number
  payload_time :: number

record dashboard_state =
  data :: "sample list"

datatype action = Dashboard_update payload | Other_action

datatype js_error = TypeError

definition dashboard_initialState :: dashboard_state where
  "dashboard_initialState = \<lparr>data = []\<rparr>"

text \<open>\<^verbatim>\<open>newData\<close> is the object that was pushed: writing its \<^verbatim>\<open>txRate\<close> writes the last
  element of \<^verbatim>\<open>data\<close>, if the object is still in the list. Reading \<^verbatim>\<open>.time\<close> of
  \<^verbatim>\<open>data[data.length - 2]\<close> throws when the list has no such element.\<close>

definition set_txRate_of_pushed :: "sample list \<Rightarrow> number option \<Rightarrow> sample list" where
  "set_txRate_of_pushed xs r =
     (if xs = [] then [] else butlast xs @ [(last xs)\<lparr>txRate := r\<rparr>])"

definition rootReducer :: "nat \<Rightarrow> dashboard_state \<Rightarrow> action \<Rightarrow> js_error + dashboard_state" where
  "rootReducer DASHBOARD_CHART_TIME state act =
     (case act of
        Other_action \<Rightarrow> Inr state
      | Dashboard_update p \<Rightarrow>
          (let newData = \<lparr>date = js_mul (payload_time p) (Fin 1000),
                          transactions = payload_transactions p,
                          time = payload_time p, txRate = None\<rparr>;
               pushed_data = data state @ [newData];
               data1 = (if length pushed_data > DASHBOARD_CHART_TIME then tl pushed_data
                        else pushed_data)
           in if length data1 = 1
              then Inr (state\<lparr>data := set_txRate_of_pushed data1 (Some (Fin 0))\<rparr>)
              else if length data1 < 2 then Inl TypeError
              else
                let beforeLastData = data1 ! (length data1 - 2);
                    timeDiff = js_sub (time beforeLastData) (time newData);
                    txDiff = js_sub (transactions beforeLastData) (transactions newData)
                in if timeDiff = Fin 0
                   then Inr (state\<lparr>data := set_txRate_of_pushed data1 (txRate beforeLastData)\<rparr>)
                   else Inr (state\<lparr>data := set_txRate_of_pushed data1
                                (Some (math_max (Fin 0) (js_div txDiff timeDiff)))\<rparr>)))"

section \<open>Notions the properties are stated with\<close>

text \<open>Paging is back at its start: page 1, no page before it, and a cursor table that holds
  the entry of page 1 and nothing else.\<close>

definition paging_reset :: "tokens_state \<Rightarrow> bool" where
  "paging_reset s =
     (page s = 1 \<and> \<not> hasBefore s \<and> pageSearchAfter s = [\<lparr>entry_page = 1, searchAfter = []\<rparr>])"

text \<open>A response without any field, and one that carries the given hits.\<close>

definition bare_response :: api_response where
  "bare_response = \<lparr>resp_error = None, resp_data = None\<rparr>"

definition response_with :: "hit list \<Rightarrow> bool \<Rightarrow> api_response" where
  "response_with hs more_pages =
     \<lparr>resp_error = None, resp_data = Some \<lparr>hits = hs, has_next = more_pages\<rparr>\<rparr>"

text \<open>A hit whose \<^verbatim>\<open>sort\<close> is the one-element array \<^verbatim>\<open>[n]\<close>.\<close>

definition hit_sorted_at :: "int \<Rightarrow> hit" where
  "hit_sorted_at n = \<lparr>hit_id = ''00'', hit_sort = Some [SNum n], hit_nft = None\<rparr>"

text \<open>Next-page clicks one after the other, each on the screen the one before left, the
  \<open>i\<close>-th fetch resolving to the \<open>i\<close>-th response.\<close>

fun next_pages :: "tokens_state \<Rightarrow> api_response list \<Rightarrow> tokens_state" where
  "next_pages s [] = s"
| "next_pages s (r # rs) = next_pages (settled (handler (NextPageClicked r) s)) rs"

text \<open>The result sets shown one after the other when the search showed \<open>first\<close>:
  \<open>displayed_for first rs n\<close> is the one displayed for page \<open>n\<close>.\<close>

definition result_sets :: "token list \<Rightarrow> api_response list \<Rightarrow> token list list" where
  "result_sets first rs = first # map (\<lambda>r. hits (getTokens_result r)) rs"




text \<open>A URL without query parameters.\<close>

definition no_params :: query_params where
  "no_params = \<lparr>qp_searchText = None, qp_sortBy = None, qp_order = None\<rparr>"


text \<open>A page of twenty hits, the \<open>i\<close>-th with \<^verbatim>\<open>sort = [i]\<close>.\<close>

definition twenty_hits :: "hit list" where
  "twenty_hits = map hit_sorted_at [1, 2, 3, 4, 5, 6, 7, 8, 9, 10, 11, 12, 13, 14, 15, 16, 17, 18, 19, 20]"

text \<open>A hit that carries no \<^verbatim>\<open>sort\<close>, and the screen back on page 1 after a visit to page 2
  when the hits are of that kind.\<close>

definition hit_without_sort :: hit where
  "hit_without_sort = \<lparr>hit_id = ''00'', hit_sort = None, hit_nft = None\<rparr>"

definition revisited_first_page :: tokens_state where
  "revisited_first_page =
     st (run False (mounted False no_params (response_with [hit_without_sort] True))
           [NextPageClicked (response_with [hit_without_sort] True),
            PreviousPageClicked (response_with [hit_without_sort] True)])"

text \<open>A response that reports an error, and a screen that shows the error indicator.\<close>

definition failed_response :: api_response where
  "failed_response = \<lparr>resp_error = Some True, resp_data = None\<rparr>"

definition shows_error_indicator :: "tokens_state \<Rightarrow> bool" where
  "shows_error_indicator s =
     (error s \<and>
      renderTokensTable False s =
        Some (ErrorMessageWithIcon ''Error loading tokens. Please try again.''))"

text \<open>A URL whose only query parameter is \<^verbatim>\<open>searchText\<close>.\<close>

definition params_with_text :: "string \<Rightarrow> query_params" where
  "params_with_text t = \<lparr>qp_searchText = Some t, qp_sortBy = None, qp_order = None\<rparr>"

text \<open>The notice rendered in place of the search field in maintenance mode.\<close>

definition maintenance_notice :: element where
  "maintenance_notice =
     ErrorMessageWithIcon ''This feature is under maintenance. Please try again after some time''"

text \<open>A number that is finite; a \<^verbatim>\<open>txRate\<close> that is set, finite and not negative; and one that is
  set and either that or \<^verbatim>\<open>Infinity\<close>.\<close>

definition is_finite :: "number \<Rightarrow> bool" where
  "is_finite v = (case v of Fin x \<Rightarrow> True | _ \<Rightarrow> False)"

definition finite_nonneg :: "number option \<Rightarrow> bool" where
  "finite_nonneg r = (case r of Some (Fin x) \<Rightarrow> 0 \<le> x | _ \<Rightarrow> False)"

definition nonneg_or_infinite :: "number option \<Rightarrow> bool" where
  "nonneg_or_infinite r = (case r of Some (Fin x) \<Rightarrow> 0 \<le> x | Some PosInf \<Rightarrow> True | _ \<Rightarrow> False)"

text \<open>The \<^verbatim>\<open>txRate\<close> of the last sample of the state the reducer returned.\<close>

definition new_txRate :: "js_error + dashboard_state \<Rightarrow> number option" where
  "new_txRate res = (case res of Inl _ \<Rightarrow> None | Inr s \<Rightarrow> txRate (last (data s)))"

text \<open>The element the reducer stores for a payload, with the given \<^verbatim>\<open>txRate\<close>.\<close>

definition sample_of :: "payload \<Rightarrow> number option \<Rightarrow> sample" where
  "sample_of p r =
     \<lparr>date = js_mul (payload_time p) (Fin 1000), transactions = payload_transactions p,
      time = payload_time p, txRate = r\<rparr>"

text \<open>A sample at time 0 with no transactions, and a payload one transaction and the
  smallest positive number (\<^verbatim>\<open>5e-324\<close>) later.\<close>

definition first_sample :: sample where
  "first_sample = \<lparr>date = Fin 0, transactions = Fin 0, time = Fin 0, txRate = Some (Fin 0)\<rparr>"

definition tiny_step_payload :: payload where
  "tiny_step_payload = \<lparr>payload_transactions = Fin 1, payload_time = Fin (pow2 (- 1074))\<rparr>"

text \<open>A sample and a payload eight transactions and four seconds apart.\<close>

definition earlier_sample :: sample where
  "earlier_sample =
     \<lparr>date = Fin 8000, transactions = Fin 100, time = Fin 8, txRate = Some (Fin 0)\<rparr>"

definition later_payload :: payload where
  "later_payload = \<lparr>payload_transactions = Fin 108, payload_time = Fin 12\<rparr>"

section \<open>Properties\<close>

subsection \<open>What each handler leaves behind\<close>

lemma settled_onSearchButtonClicked:
  "settled (onSearchButtonClicked a b d c live resp) =
     live\<lparr>error := get_or (resp_error resp) False, isSearchLoading := False, page := 1,
          tokens := hits (getTokens_result resp), hasAfter := has_next (getTokens_result resp),
          hasBefore := False, pageSearchAfter := [\<lparr>entry_page = 1, searchAfter = []\<rparr>]\<rparr>"
  by (simp add: onSearchButtonClicked_def getTokens_resolved_def)

lemma issued_onSearchButtonClicked:
  "issued (onSearchButtonClicked a b d c live resp) = [getTokens_call c []]"
  by (simp add: onSearchButtonClicked_def getTokens_resolved_def)

lemma awaiting_onSearchButtonClicked:
  "awaiting (onSearchButtonClicked a b d c live resp) = live\<lparr>isSearchLoading := True\<rparr>"
  by (simp add: onSearchButtonClicked_def getTokens_resolved_def)

lemma pushed_onSearchButtonClicked:
  "pushed (onSearchButtonClicked a b d c live resp) =
     [updateURL (or_else a (searchText c)) (or_else b (sortBy c)) (or_else d (order c))]"
  by (simp add: onSearchButtonClicked_def getTokens_resolved_def)

lemma settled_search_effect_fx:
  "isSearchLoading c \<Longrightarrow>
   settled (search_effect_fx c live resp) =
     live\<lparr>error := get_or (resp_error resp) False, isSearchLoading := False, page := 1,
          tokens := hits (getTokens_result resp), hasAfter := has_next (getTokens_result resp),
          hasBefore := False, pageSearchAfter := [\<lparr>entry_page = 1, searchAfter = []\<rparr>]\<rparr>"
  by (simp add: search_effect_fx_def getTokens_resolved_def)

lemma issued_search_effect_fx:
  "isSearchLoading c \<Longrightarrow>
   issued (search_effect_fx c live resp) =
     [getTokens_call_fx [] (searchText c) (sortBy c) (order c)]"
  by (simp add: search_effect_fx_def getTokens_resolved_def)

lemma issued_nextPageClicked:
  "issued (nextPageClicked c live resp) =
     [getTokens_call c
        (if searchAfter_of (pageSearchAfter c) (page c + 1) = []
         then lastCurrentTokenSort (tokens c)
         else searchAfter_of (pageSearchAfter c) (page c + 1))]"
  by (simp add: nextPageClicked_def getTokens_resolved_def Let_def isEmpty_def)

lemma settled_nextPageClicked:
  "settled (nextPageClicked c live resp) =
     live\<lparr>calculatingPage := False,
          pageSearchAfter :=
            (if searchAfter_of (pageSearchAfter c) (page c + 1) = []
             then pageSearchAfter c @
                  [\<lparr>entry_page = page c + 1, searchAfter = lastCurrentTokenSort (tokens c)\<rparr>]
             else pageSearchAfter live),
          error := get_or (resp_error resp) False,
          tokens := hits (getTokens_result resp), hasAfter := has_next (getTokens_result resp),
          hasBefore := True, page := page c + 1\<rparr>"
  by (simp add: nextPageClicked_def getTokens_resolved_def Let_def isEmpty_def)

lemma awaiting_nextPageClicked:
  "awaiting (nextPageClicked c live resp) =
     live\<lparr>calculatingPage := True,
          pageSearchAfter :=
            (if searchAfter_of (pageSearchAfter c) (page c + 1) = []
             then pageSearchAfter c @
                  [\<lparr>entry_page = page c + 1, searchAfter = lastCurrentTokenSort (tokens c)\<rparr>]
             else pageSearchAfter live)\<rparr>"
  by (simp add: nextPageClicked_def getTokens_resolved_def Let_def isEmpty_def)


lemma settled_previousPageClicked:
  "settled (previousPageClicked c live resp) =
     live\<lparr>calculatingPage := False, error := get_or (resp_error resp) False,
          tokens := hits (getTokens_result resp), hasAfter := True,
          hasBefore := (page c - 1 \<noteq> 1), page := page c - 1\<rparr>"
  by (simp add: previousPageClicked_def getTokens_resolved_def Let_def)



lemma searchAfter_of_found:
  "find_page table n = Some e \<Longrightarrow> searchAfter_of table n = searchAfter e"
  by (simp add: searchAfter_of_def)

subsection \<open>A changed query starts paging afresh\<close>

text \<open>C2. A search submitted with the button or with Enter, and a click on a column header,
  leave the screen on page 1 with \<^verbatim>\<open>hasBefore\<close> false and a cursor table that is exactly
  the entry of page 1 with the empty cursor, once the fetch they start has resolved, whatever
  the table held before and whatever the fetch returned. This holds in Tokens.js, and in the
  effect-driven file for a screen on which no search is under way.\<close>

theorem query_change_resets_paging:
  "paging_reset (settled (handler (SearchButtonClicked resp) c)) \<and>
   paging_reset (settled (handler (SearchTextKeyUp ''Enter'' resp) c)) \<and>
   paging_reset (settled (handler (TableHeaderClicked headerName resp) c)) \<and>
   (\<not> isSearchLoading c \<longrightarrow>
      paging_reset (settled (handler_fx (SearchButtonClicked resp) c)) \<and>
      paging_reset (settled (handler_fx (SearchTextKeyUp ''Enter'' resp) c)) \<and>
      paging_reset (settled (handler_fx (TableHeaderClicked headerName resp) c)))"
  by (simp add: settled_onSearchButtonClicked onSearchTextKeyUp_def tableHeaderClicked_def
      Let_def rendered_fx_def deps_changed_def onSearchButtonClicked_fx_def
      onSearchTextKeyUp_fx_def tableHeaderClicked_fx_def settled_search_effect_fx
      paging_reset_def)

theorem query_change_resets_paging_witness:
  "\<not> isSearchLoading initial_state \<and>
   paging_reset (settled (handler (TableHeaderClicked ''amount'' bare_response) initial_state)) \<and>
   paging_reset (settled (handler_fx (TableHeaderClicked ''amount'' bare_response) initial_state))"
  using query_change_resets_paging [of bare_response initial_state "''amount''"]
  by (simp add: initial_state_def)

subsection \<open>The cursor table under forward paging\<close>



lemma next_pages_page:
  "page (next_pages s rs) = page s + int (length rs)"
  by (induction rs arbitrary: s) (simp_all add: settled_nextPageClicked)

lemma next_pages_tokens:
  "tokens (next_pages s rs) = last (result_sets (tokens s) rs)"
  by (induction rs arbitrary: s) (simp_all add: settled_nextPageClicked result_sets_def)

lemma lastCurrentTokenSort_last:
  "rows \<noteq> [] \<Longrightarrow> token_sort (last rows) = Some cur \<Longrightarrow> lastCurrentTokenSort rows = cur"
  by (simp add: lastCurrentTokenSort_def last_of_def get_or_def)






subsection \<open>Going back a page\<close>













subsection \<open>Sorting by a column\<close>

text \<open>The request a header click sends. In Tokens.js \<^verbatim>\<open>getTokens\<close> reads the sort of the render
  that was clicked, so the request still carries the sort from before the click; the
  effect-driven file sends the new one.\<close>

lemma request_of_header_click:
  "issued (handler (TableHeaderClicked headerName resp) c) =
     [\<lparr>req_searchText = searchText c, req_sortBy = sortBy c, req_order = order c,
       req_searchAfter = []\<rparr>]"
  by (simp add: tableHeaderClicked_def Let_def issued_onSearchButtonClicked getTokens_call_def)

lemma request_of_header_click_fx:
  "\<not> isSearchLoading c \<Longrightarrow>
   issued (handler_fx (TableHeaderClicked headerName resp) c) =
     [\<lparr>req_searchText = searchText c, req_sortBy = headerName,
       req_order = newOrder_of headerName c, req_searchAfter = []\<rparr>]"
  by (simp add: tableHeaderClicked_fx_def Let_def rendered_fx_def deps_changed_def
      issued_search_effect_fx getTokens_call_fx_def)

text \<open>What a header click leaves in the state, in both files: \<^verbatim>\<open>sortBy\<close> is the clicked
  header; the order is \<^verbatim>\<open>'desc'\<close> if that header was the sort field and the order was
  \<^verbatim>\<open>'asc'\<close>, and \<^verbatim>\<open>'asc'\<close> otherwise; paging is reset.\<close>

lemma header_click_state:
  "sortBy (settled (handler (TableHeaderClicked headerName resp) c)) = headerName \<and>
   order (settled (handler (TableHeaderClicked headerName resp) c)) =
     (if headerName = sortBy c then (if order c = ''asc'' then ''desc'' else ''asc'')
      else ''asc'') \<and>
   paging_reset (settled (handler (TableHeaderClicked headerName resp) c)) \<and>
   (\<not> isSearchLoading c \<longrightarrow>
      sortBy (settled (handler_fx (TableHeaderClicked headerName resp) c)) = headerName \<and>
      order (settled (handler_fx (TableHeaderClicked headerName resp) c)) =
        (if headerName = sortBy c then (if order c = ''asc'' then ''desc'' else ''asc'')
         else ''asc'') \<and>
      paging_reset (settled (handler_fx (TableHeaderClicked headerName resp) c)))"
  by (simp add: tableHeaderClicked_def tableHeaderClicked_fx_def Let_def newOrder_of_def
      settled_onSearchButtonClicked rendered_fx_def deps_changed_def
      settled_search_effect_fx paging_reset_def)

text \<open>C7 holds of the effect-driven file and fails in Tokens.js. On the freshly mounted
  screen, sorted by \<^verbatim>\<open>transaction_timestamp\<close> descending, a click on the header \<^verbatim>\<open>amount\<close>
  leaves the sort state \<^verbatim>\<open>('amount', 'asc')\<close> in both files, but the search Tokens.js starts
  is the old one, for \<^verbatim>\<open>('transaction_timestamp', 'desc')\<close>; the effect-driven file searches
  for \<^verbatim>\<open>('amount', 'asc')\<close>.\<close>

theorem header_click_searches_old_sort:
  "sortBy (settled (handler (TableHeaderClicked ''amount'' bare_response) initial_state)) =
     ''amount'' \<and>
   order (settled (handler (TableHeaderClicked ''amount'' bare_response) initial_state)) =
     ''asc'' \<and>
   issued (handler (TableHeaderClicked ''amount'' bare_response) initial_state) =
     [\<lparr>req_searchText = [], req_sortBy = ''transaction_timestamp'', req_order = ''desc'',
       req_searchAfter = []\<rparr>] \<and>
   issued (handler_fx (TableHeaderClicked ''amount'' bare_response) initial_state) =
     [\<lparr>req_searchText = [], req_sortBy = ''amount'', req_order = ''asc'',
       req_searchAfter = []\<rparr>]"
  using request_of_header_click [of "''amount''" bare_response initial_state]
    request_of_header_click_fx [of initial_state "''amount''" bare_response]
    header_click_state [of "''amount''" bare_response initial_state]
  by (simp add: newOrder_of_def initial_state_def)

subsection \<open>The first next-page click\<close>

lemma lastCurrentTokenSort_map:
  "hs \<noteq> [] \<Longrightarrow> lastCurrentTokenSort (map to_token hs) = get_or (hit_sort (last hs)) []"
  by (simp add: lastCurrentTokenSort_def last_of_def last_map to_token_def)

text \<open>C6. A search for the text \<^verbatim>\<open>''\<close> sorted by \<^verbatim>\<open>transaction_timestamp\<close> descending whose
  fetch returned 20 rows and \<^verbatim>\<open>has_next = true\<close> leaves page 1 with those rows; clicking next
  then sends one request for the same query whose cursor is the \<^verbatim>\<open>sort\<close> of the 20th row (the
  empty cursor if that row has none), and leaves page 2 with \<^verbatim>\<open>hasBefore\<close> true.\<close>

theorem next_from_first_page_of_twenty:
  assumes query: "searchText c = []" "sortBy c = ''transaction_timestamp''" "order c = ''desc''"
    and page1: "resp_data r0 = Some d" "length (hits d) = 20" "has_next d"
  shows "page (settled (handler (SearchButtonClicked r0) c)) = 1 \<and>
         length (tokens (settled (handler (SearchButtonClicked r0) c))) = 20 \<and>
         hasAfter (settled (handler (SearchButtonClicked r0) c)) \<and>
         issued (handler (NextPageClicked r1) (settled (handler (SearchButtonClicked r0) c))) =
           [\<lparr>req_searchText = [], req_sortBy = ''transaction_timestamp'', req_order = ''desc'',
             req_searchAfter = get_or (hit_sort (hits d ! 19)) []\<rparr>] \<and>
         page (settled (handler (NextPageClicked r1)
                 (settled (handler (SearchButtonClicked r0) c)))) = 2 \<and>
         hasBefore (settled (handler (NextPageClicked r1)
                 (settled (handler (SearchButtonClicked r0) c))))"
proof -
  let ?s = "settled (onSearchButtonClicked None None None c c r0)"
  have rows: "tokens ?s = map to_token (hits d)" and more: "hasAfter ?s"
    using page1 by (simp_all add: settled_onSearchButtonClicked getTokens_result_def get_or_def)
  have nonempty: "hits d \<noteq> []"
    using page1(2) by auto
  then have "last (hits d) = hits d ! 19"
    using page1(2) by (simp add: last_conv_nth)
  with nonempty have cur: "lastCurrentTokenSort (tokens ?s) = get_or (hit_sort (hits d ! 19)) []"
    by (simp add: rows lastCurrentTokenSort_map)
  have table: "pageSearchAfter ?s = [\<lparr>entry_page = 1, searchAfter = []\<rparr>]" and p: "page ?s = 1"
    by (simp_all add: settled_onSearchButtonClicked)
  have absent: "searchAfter_of (pageSearchAfter ?s) (page ?s + 1) = []"
    by (simp add: table p searchAfter_of_def find_page_def)
  have q: "searchText ?s = []" "sortBy ?s = ''transaction_timestamp''" "order ?s = ''desc''"
    using query by (simp_all add: settled_onSearchButtonClicked)
  have req: "issued (nextPageClicked ?s ?s r1) =
      [\<lparr>req_searchText = [], req_sortBy = ''transaction_timestamp'', req_order = ''desc'',
        req_searchAfter = get_or (hit_sort (hits d ! 19)) []\<rparr>]"
    by (simp add: issued_nextPageClicked absent cur getTokens_call_def q)
  have after: "page (settled (nextPageClicked ?s ?s r1)) = 2"
      "hasBefore (settled (nextPageClicked ?s ?s r1))"
    by (simp_all add: settled_nextPageClicked p)
  show ?thesis
    using rows more req after p page1(2) by simp
qed

theorem next_from_first_page_of_twenty_witness:
  "length (hits \<lparr>hits = twenty_hits, has_next = True\<rparr>) = 20 \<and>
   issued (handler (NextPageClicked bare_response)
       (settled (handler (SearchButtonClicked (response_with twenty_hits True)) initial_state))) =
     [\<lparr>req_searchText = [], req_sortBy = ''transaction_timestamp'', req_order = ''desc'',
       req_searchAfter = [SNum 20]\<rparr>] \<and>
   page (settled (handler (NextPageClicked bare_response)
       (settled (handler (SearchButtonClicked (response_with twenty_hits True)) initial_state)))) = 2"
  using next_from_first_page_of_twenty [of initial_state "response_with twenty_hits True"
      "\<lparr>hits = twenty_hits, has_next = True\<rparr>" bare_response]
  by (simp add: initial_state_def response_with_def twenty_hits_def get_or_def hit_sorted_at_def)

subsection \<open>The cursor of the next page\<close>

lemma revisited_first_page_eq:
  "revisited_first_page =
     initial_state\<lparr>tokens := [to_token hit_without_sort], hasAfter := True,
       pageSearchAfter := [\<lparr>entry_page = 1, searchAfter = []\<rparr>, \<lparr>entry_page = 2, searchAfter = []\<rparr>]\<rparr>"
  by (simp add: revisited_first_page_def mounted_def after_def mount_effect_def Let_def
      handle_def offered_def renderSearchField_def renderTokensTable_def
      settled_onSearchButtonClicked settled_nextPageClicked settled_previousPageClicked
      searchAfter_of_def find_page_def getTokens_result_def lastCurrentTokenSort_def
      last_of_def to_token_def hit_without_sort_def initial_state_def no_params_def
      response_with_def get_or_def)

text \<open>C5, as stated, fails where the table's entry for the next page holds the empty cursor:
  \<^verbatim>\<open>isEmpty(searchAfter)\<close> cannot tell that entry from a missing one, so a further entry is
  appended.\<close>

theorem cached_empty_cursor_counterexample:
  "find_page (pageSearchAfter revisited_first_page) (page revisited_first_page + 1) =
     Some \<lparr>entry_page = 2, searchAfter = []\<rparr> \<and>
   pageSearchAfter (settled (handler (NextPageClicked (response_with [hit_without_sort] True))
       revisited_first_page)) \<noteq> pageSearchAfter revisited_first_page"
  by (simp add: revisited_first_page_eq settled_nextPageClicked searchAfter_of_def
      find_page_def initial_state_def)

text \<open>C5, amended. If the first entry for page \<open>page + 1\<close> holds a non-empty cursor, the
  request carries that cursor and the table is left as it is, during the fetch and after it.
  If there is no entry for that page, or the first one holds the empty cursor, the request
  carries \<^verbatim>\<open>get(last(tokens), 'sort', [])\<close> of the rows on display, and an entry with that cursor
  is appended to the table for page \<open>page + 1\<close>.\<close>

theorem next_page_cursor_choice:
  "(\<forall>e. find_page (pageSearchAfter c) (page c + 1) = Some e \<and> searchAfter e \<noteq> [] \<longrightarrow>
        map req_searchAfter (issued (handler (NextPageClicked resp) c)) = [searchAfter e] \<and>
        pageSearchAfter (awaiting (handler (NextPageClicked resp) c)) = pageSearchAfter c \<and>
        pageSearchAfter (settled (handler (NextPageClicked resp) c)) = pageSearchAfter c) \<and>
   (find_page (pageSearchAfter c) (page c + 1) = None \<or>
    (\<exists>e. find_page (pageSearchAfter c) (page c + 1) = Some e \<and> searchAfter e = []) \<longrightarrow>
        map req_searchAfter (issued (handler (NextPageClicked resp) c)) =
          [lastCurrentTokenSort (tokens c)] \<and>
        pageSearchAfter (awaiting (handler (NextPageClicked resp) c)) =
          pageSearchAfter c @
          [\<lparr>entry_page = page c + 1, searchAfter = lastCurrentTokenSort (tokens c)\<rparr>] \<and>
        pageSearchAfter (settled (handler (NextPageClicked resp) c)) =
          pageSearchAfter c @
          [\<lparr>entry_page = page c + 1, searchAfter = lastCurrentTokenSort (tokens c)\<rparr>])"
  by (auto simp: issued_nextPageClicked settled_nextPageClicked awaiting_nextPageClicked
      searchAfter_of_def getTokens_call_def)

theorem next_page_cursor_choice_witness:
  "find_page [\<lparr>entry_page = 1, searchAfter = []\<rparr>, \<lparr>entry_page = 2, searchAfter = [SNum 4]\<rparr>]
     (1 + 1) = Some \<lparr>entry_page = 2, searchAfter = [SNum 4]\<rparr> \<and>
   map req_searchAfter (issued (handler (NextPageClicked bare_response)
       (initial_state\<lparr>pageSearchAfter :=
          [\<lparr>entry_page = 1, searchAfter = []\<rparr>, \<lparr>entry_page = 2, searchAfter = [SNum 4]\<rparr>]\<rparr>))) =
     [[SNum 4]] \<and>
   find_page [\<lparr>entry_page = 1, searchAfter = []\<rparr>] (1 + 1) = None \<and>
   pageSearchAfter (settled (handler (NextPageClicked bare_response)
       (initial_state\<lparr>tokens := [to_token (hit_sorted_at 6)],
          pageSearchAfter := [\<lparr>entry_page = 1, searchAfter = []\<rparr>]\<rparr>))) =
     [\<lparr>entry_page = 1, searchAfter = []\<rparr>, \<lparr>entry_page = 2, searchAfter = [SNum 6]\<rparr>]"
  using next_page_cursor_choice [of
      "initial_state\<lparr>pageSearchAfter :=
          [\<lparr>entry_page = 1, searchAfter = []\<rparr>, \<lparr>entry_page = 2, searchAfter = [SNum 4]\<rparr>]\<rparr>"
      bare_response]
    next_page_cursor_choice [of
      "initial_state\<lparr>tokens := [to_token (hit_sorted_at 6)],
          pageSearchAfter := [\<lparr>entry_page = 1, searchAfter = []\<rparr>]\<rparr>" bare_response]
  by (simp add: find_page_def initial_state_def lastCurrentTokenSort_def last_of_def
      to_token_def hit_sorted_at_def get_or_def)

subsection \<open>The error flag\<close>

lemma error_settled_search:
  "error (settled (onSearchButtonClicked a b d c live resp)) = get_or (resp_error resp) False"
  by (simp add: settled_onSearchButtonClicked)

lemma error_awaiting_search:
  "error (awaiting (onSearchButtonClicked a b d c live resp)) = error live"
  by (simp add: awaiting_onSearchButtonClicked)

text \<open>C4, as stated, fails in its second half: after a fetch that reported an error, the next
  search leaves the flag set while its own fetch is in flight, and the error indicator stays
  on screen.\<close>

theorem failed_fetch_counterexample:
  "error (awaiting (handler (SearchButtonClicked bare_response)
            (settled (handler (SearchButtonClicked failed_response) initial_state)))) \<and>
   renderTokensTable False
     (awaiting (handler (SearchButtonClicked bare_response)
            (settled (handler (SearchButtonClicked failed_response) initial_state)))) =
     Some (ErrorMessageWithIcon ''Error loading tokens. Please try again.'')"
  by (simp add: awaiting_onSearchButtonClicked settled_onSearchButtonClicked
      renderTokensTable_def failed_response_def get_or_def)

text \<open>C4, amended. A fetch that resolves with \<^verbatim>\<open>error = true\<close>, whichever handler made it, leaves
  the flag set and, outside maintenance mode, the error indicator in place of the table. A
  search (button, Enter or header click) does not touch the flag before its fetch resolves;
  when it resolves, the flag becomes the response's \<^verbatim>\<open>error\<close>, false if the response has
  none.\<close>

theorem fetch_error_flag_follows_last_response:
  "(resp_error resp = Some True \<longrightarrow>
      shows_error_indicator (settled (handler (SearchButtonClicked resp) c)) \<and>
      shows_error_indicator (settled (handler (SearchTextKeyUp ''Enter'' resp) c)) \<and>
      shows_error_indicator (settled (handler (TableHeaderClicked headerName resp) c)) \<and>
      shows_error_indicator (settled (handler (NextPageClicked resp) c)) \<and>
      shows_error_indicator (settled (handler (PreviousPageClicked resp) c)) \<and>
      shows_error_indicator (settled (mount_effect False queryParams c resp))) \<and>
   error (awaiting (handler (SearchButtonClicked resp) c)) = error c \<and>
   error (awaiting (handler (SearchTextKeyUp ''Enter'' resp) c)) = error c \<and>
   error (awaiting (handler (TableHeaderClicked headerName resp) c)) = error c \<and>
   error (settled (handler (SearchButtonClicked resp) c)) = get_or (resp_error resp) False \<and>
   error (settled (handler (SearchTextKeyUp ''Enter'' resp) c)) = get_or (resp_error resp) False \<and>
   error (settled (handler (TableHeaderClicked headerName resp) c)) =
     get_or (resp_error resp) False"
  by (simp add: shows_error_indicator_def renderTokensTable_def onSearchTextKeyUp_def
      tableHeaderClicked_def mount_effect_def Let_def settled_onSearchButtonClicked
      awaiting_onSearchButtonClicked settled_nextPageClicked settled_previousPageClicked
      get_or_def)

theorem fetch_error_flag_follows_last_response_witness:
  "resp_error failed_response = Some True \<and>
   shows_error_indicator (settled (handler (NextPageClicked failed_response) initial_state)) \<and>
   \<not> error (settled (handler (SearchButtonClicked bare_response)
              (settled (handler (NextPageClicked failed_response) initial_state))))"
  using fetch_error_flag_follows_last_response [of failed_response initial_state "[]" no_params]
    fetch_error_flag_follows_last_response [of bare_response
      "settled (handler (NextPageClicked failed_response) initial_state)" "[]" no_params]
  by (simp add: failed_response_def bare_response_def get_or_def)

subsection \<open>Mounting\<close>

text \<open>The screen after the mount effect has run to its end, in each file. In Tokens.js the
  request is made by the first render's \<^verbatim>\<open>getTokens\<close>, whose \<^verbatim>\<open>searchText\<close>, \<^verbatim>\<open>sortBy\<close> and
  \<^verbatim>\<open>order\<close> are the initial ones whatever the URL holds; the effect-driven file passes the
  values it has just stored.\<close>

lemma mounted_eq:
  "mounted False q resp =
     \<lparr>st = initial_state
            \<lparr>searchText := get_or (qp_searchText q) [],
             sortBy := get_or (qp_sortBy q) ''transaction_timestamp'',
             order := get_or (qp_order q) ''desc'',
             error := get_or (resp_error resp) False,
             tokens := hits (getTokens_result resp), hasAfter := has_next (getTokens_result resp),
             pageSearchAfter := [\<lparr>entry_page = 1, searchAfter = []\<rparr>]\<rparr>,
      calls = [\<lparr>req_searchText = [], req_sortBy = ''transaction_timestamp'',
                req_order = ''desc'', req_searchAfter = []\<rparr>],
      history = [\<lparr>url_searchText = get_or (qp_searchText q) [],
                  url_sortBy = or_else (Some (get_or (qp_sortBy q) ''transaction_timestamp''))
                                 ''transaction_timestamp'',
                  url_order = or_else (Some (get_or (qp_order q) ''desc'')) ''desc''\<rparr>]\<rparr>"
  by (simp add: mounted_def after_def mount_effect_def Let_def settled_onSearchButtonClicked
      issued_onSearchButtonClicked pushed_onSearchButtonClicked getTokens_call_def
      updateURL_def initial_state_def or_else_def)

lemma mounted_fx_eq:
  "mounted_fx False q resp =
     \<lparr>st = initial_state
            \<lparr>searchText := get_or (qp_searchText q) [],
             sortBy := get_or (qp_sortBy q) [],
             order := get_or (qp_order q) [],
             error := get_or (resp_error resp) False,
             tokens := hits (getTokens_result resp), hasAfter := has_next (getTokens_result resp),
             pageSearchAfter := [\<lparr>entry_page = 1, searchAfter = []\<rparr>]\<rparr>,
      calls = [\<lparr>req_searchText = get_or (qp_searchText q) [],
                req_sortBy = get_or (qp_sortBy q) [],
                req_order = get_or (qp_order q) [], req_searchAfter = []\<rparr>],
      history = [\<lparr>url_searchText = get_or (qp_searchText q) [],
                  url_sortBy = get_or (qp_sortBy q) [],
                  url_order = get_or (qp_order q) []\<rparr>]\<rparr>"
  by (simp add: mounted_fx_def after_def and_then_def mount_effect_fx_def Let_def
      rendered_fx_def deps_changed_def search_effect_fx_def nothing_done_def
      getTokens_resolved_def getTokens_call_fx_def initial_state_def or_else_def)

text \<open>C8, as stated, fails in each file on one point. In the effect-driven file a URL without
  parameters leaves \<^verbatim>\<open>sortBy\<close> and \<^verbatim>\<open>order\<close> empty, not \<^verbatim>\<open>'transaction_timestamp'\<close> and
  \<^verbatim>\<open>'desc'\<close>. In Tokens.js a URL with \<^verbatim>\<open>searchText=abc\<close> stores \<^verbatim>\<open>'abc'\<close> but fetches for the empty
  text, so what is displayed does not follow from the URL.\<close>

theorem mount_defaults_counterexample:
  "sortBy (st (mounted_fx False no_params bare_response)) = [] \<and>
   order (st (mounted_fx False no_params bare_response)) = [] \<and>
   searchText (st (mounted False (params_with_text ''abc'') bare_response)) = ''abc'' \<and>
   map req_searchText (calls (mounted False (params_with_text ''abc'') bare_response)) = [[]]"
  by (simp add: mounted_eq mounted_fx_eq no_params_def params_with_text_def get_or_def
      initial_state_def)

text \<open>C8, amended. On mount outside maintenance mode both files store \<^verbatim>\<open>searchText\<close>,
  \<^verbatim>\<open>sortBy\<close> and \<^verbatim>\<open>order\<close> from the URL where it has them, make exactly one request, with the
  empty cursor, and leave paging at its start. Where the URL has none, Tokens.js keeps
  \<^verbatim>\<open>''\<close>, \<^verbatim>\<open>'transaction_timestamp'\<close> and \<^verbatim>\<open>'desc'\<close>, and the effect-driven file stores the empty
  string for all three. In the effect-driven file the request carries the three stored
  values.\<close>

theorem mount_reads_url_and_fetches_first_page:
  "searchText (st (mounted False q resp)) = get_or (qp_searchText q) [] \<and>
   sortBy (st (mounted False q resp)) = get_or (qp_sortBy q) ''transaction_timestamp'' \<and>
   order (st (mounted False q resp)) = get_or (qp_order q) ''desc'' \<and>
   map req_searchAfter (calls (mounted False q resp)) = [[]] \<and>
   paging_reset (st (mounted False q resp)) \<and>
   searchText (st (mounted_fx False q resp)) = get_or (qp_searchText q) [] \<and>
   sortBy (st (mounted_fx False q resp)) = get_or (qp_sortBy q) [] \<and>
   order (st (mounted_fx False q resp)) = get_or (qp_order q) [] \<and>
   calls (mounted_fx False q resp) =
     [\<lparr>req_searchText = searchText (st (mounted_fx False q resp)),
       req_sortBy = sortBy (st (mounted_fx False q resp)),
       req_order = order (st (mounted_fx False q resp)), req_searchAfter = []\<rparr>] \<and>
   paging_reset (st (mounted_fx False q resp))"
  by (simp add: mounted_eq mounted_fx_eq paging_reset_def initial_state_def)

theorem mount_reads_url_and_fetches_first_page_witness:
  "sortBy (st (mounted False (params_with_text ''abc'') bare_response)) = ''transaction_timestamp'' \<and>
   searchText (st (mounted False (params_with_text ''abc'') bare_response)) = ''abc'' \<and>
   calls (mounted_fx False (params_with_text ''abc'') bare_response) =
     [\<lparr>req_searchText = ''abc'', req_sortBy = [], req_order = [], req_searchAfter = []\<rparr>]"
  using mount_reads_url_and_fetches_first_page [of "params_with_text ''abc''" bare_response]
  by (simp add: params_with_text_def get_or_def)

subsection \<open>Maintenance mode\<close>

lemma not_offered_in_maintenance: "\<not> offered True c e"
  by (simp add: offered_def renderSearchField_def renderTokensTable_def)

lemma run_in_maintenance: "run True w es = w"
  by (induction es) (simp_all add: handle_def not_offered_in_maintenance)

lemma run_fx_in_maintenance: "run_fx True w es = w"
  by (induction es) (simp_all add: handle_fx_def not_offered_in_maintenance)

lemma mounted_in_maintenance:
  "mounted True q resp = \<lparr>st = initial_state, calls = [], history = []\<rparr>"
  by (simp add: mounted_def after_def mount_effect_def nothing_done_def)

lemma mounted_fx_in_maintenance:
  "mounted_fx True q resp = \<lparr>st = initial_state, calls = [], history = []\<rparr>"
  by (simp add: mounted_fx_def after_def and_then_def mount_effect_fx_def rendered_fx_def
      deps_changed_def search_effect_fx_def nothing_done_def initial_state_def)

text \<open>C9. Mounted with the maintenance flag set, and for as long as it stays set, the screen
  makes no call of \<^verbatim>\<open>tokensApi.getList\<close>, whatever the user does: the mount effect returns at
  once, the search field is replaced by the notice and the table by nothing, so no element
  that holds a handler is on screen. In both files.\<close>

theorem maintenance_mode_never_fetches:
  "calls (run True (mounted True q resp) events) = [] \<and>
   renderSearchField True (st (run True (mounted True q resp) events)) = maintenance_notice \<and>
   renderTokensTable True (st (run True (mounted True q resp) events)) = None \<and>
   calls (run_fx True (mounted_fx True q resp) events) = [] \<and>
   renderSearchField True (st (run_fx True (mounted_fx True q resp) events)) =
     maintenance_notice \<and>
   renderTokensTable True (st (run_fx True (mounted_fx True q resp) events)) = None"
  by (simp add: run_in_maintenance run_fx_in_maintenance mounted_in_maintenance
      mounted_fx_in_maintenance renderSearchField_def renderTokensTable_def
      maintenance_notice_def)

theorem maintenance_mode_never_fetches_witness:
  "calls (run True (mounted True (params_with_text ''abc'') bare_response)
            [SearchButtonClicked bare_response, NextPageClicked bare_response,
             TableHeaderClicked ''amount'' bare_response]) = [] \<and>
   calls (run_fx True (mounted_fx True (params_with_text ''abc'') bare_response)
            [SearchButtonClicked bare_response, NextPageClicked bare_response,
             TableHeaderClicked ''amount'' bare_response]) = []"
  using maintenance_mode_never_fetches [of "params_with_text ''abc''" bare_response
      "[SearchButtonClicked bare_response, NextPageClicked bare_response,
        TableHeaderClicked ''amount'' bare_response]"]
  by simp

subsection \<open>The dashboard reducer\<close>

lemma pow2_powr: "pow2 k = 2 powr (real_of_int k)"
proof (cases "0 \<le> k")
  case True
  then show ?thesis
    by (simp add: pow2_def powr_realpow [symmetric])
next
  case False
  then have "real_of_int k = - real (nat (- k))" by simp
  with False show ?thesis
    by (simp add: pow2_def powr_minus powr_realpow [symmetric] del: of_nat_nat)
qed

lemma floor_log2:
  assumes "pow2 k \<le> y" and "y < pow2 (k + 1)"
  shows "\<lfloor>log 2 y\<rfloor> = k"
proof -
  have pos: "0 < y"
    using assms(1) by (smt (verit) pow2_powr powr_gt_zero)
  have "real_of_int k \<le> log 2 y"
    using assms(1) pos by (simp add: pow2_powr le_log_iff)
  moreover have "log 2 y < real_of_int k + 1"
    using assms(2) pos by (simp add: pow2_powr log_less_iff)
  ultimately show ?thesis
    by (simp add: floor_eq_iff)
qed

lemma to_double_between:
  assumes "pow2 k \<le> \<bar>x\<bar>" and "\<bar>x\<bar> < pow2 (k + 1)"
  shows "to_double x =
     (let u = pow2 (max k (- 1022) - 52);
          r = of_int (round_half_even (x / u)) * u
      in if pow2 1024 \<le> \<bar>r\<bar> then (if 0 < x then PosInf else NegInf) else Fin r)"
proof -
  have "0 < pow2 k"
    by (simp add: pow2_powr)
  with assms(1) have "x \<noteq> 0" by auto
  then show ?thesis
    by (simp add: to_double_def floor_log2 [OF assms] Let_def)
qed

lemma to_double_not_NaN: "to_double x \<noteq> NaN"
  by (simp add: to_double_def Let_def)

lemma js_sub_same: "js_sub (Fin a) (Fin a) = Fin 0"
  by (simp add: to_double_def)

lemma js_sub_finite_not_NaN: "js_sub (Fin a) (Fin b) \<noteq> NaN"
  by (simp add: to_double_not_NaN)

lemma rate_nonneg_or_infinite:
  assumes "t \<noteq> NaN" and "t \<noteq> Fin 0"
  shows "nonneg_or_infinite (Some (math_max (Fin 0) (js_div (Fin d) t)))"
proof (cases t)
  case (Fin b)
  with assms(2) have "b \<noteq> 0" by simp
  then have "js_div (Fin d) t = to_double (d / b)"
    by (simp add: Fin)
  then show ?thesis
    by (cases "to_double (d / b)") (simp_all add: nonneg_or_infinite_def to_double_not_NaN)
qed (use assms in \<open>simp_all add: nonneg_or_infinite_def\<close>)

lemma set_txRate_of_pushed_snoc:
  "set_txRate_of_pushed (xs @ [x]) r = xs @ [x\<lparr>txRate := r\<rparr>]"
  by (simp add: set_txRate_of_pushed_def)

text \<open>With a window of zero the first update shifts out the sample it has just pushed, and
  the read of \<^verbatim>\<open>data[data.length - 2].time\<close> throws.\<close>

lemma rootReducer_empty_window:
  "rootReducer 0 dashboard_initialState (Dashboard_update p) = Inl TypeError"
  by (simp add: rootReducer_def dashboard_initialState_def)

text \<open>The first sample of a list, and a sample that follows another.\<close>

lemma rootReducer_first:
  assumes "0 < n" and "data state = [] \<or> (length (data state) = 1 \<and> n = 1)"
  shows "rootReducer n state (Dashboard_update p) =
           Inr (state\<lparr>data := [sample_of p (Some (Fin 0))]\<rparr>)"
proof -
  from assms(2) show ?thesis
  proof
    assume "data state = []"
    with assms(1) show ?thesis
      by (simp add: rootReducer_def Let_def set_txRate_of_pushed_def sample_of_def)
  next
    assume one: "length (data state) = 1 \<and> n = 1"
    then obtain x where "data state = [x]"
      by (cases "data state") auto
    with one show ?thesis
      by (simp add: rootReducer_def Let_def set_txRate_of_pushed_def sample_of_def)
  qed
qed

lemma rootReducer_later:
  assumes "0 < n" and "data state \<noteq> []" and "\<not> (length (data state) = 1 \<and> n = 1)"
  shows "rootReducer n state (Dashboard_update p) =
           Inr (state\<lparr>data :=
             (if length (data state) + 1 > n then tl (data state) else data state) @
             [sample_of p
                (if js_sub (time (last (data state))) (payload_time p) = Fin 0
                 then txRate (last (data state))
                 else Some (math_max (Fin 0)
                   (js_div (js_sub (transactions (last (data state))) (payload_transactions p))
                           (js_sub (time (last (data state))) (payload_time p)))))]\<rparr>)"
proof -
  obtain xs x where old: "data state = xs @ [x]"
    using assms(2) by (metis rev_exhaust)
  let ?new = "\<lparr>date = js_mul (payload_time p) (Fin 1000), transactions = payload_transactions p,
                 time = payload_time p, txRate = None\<rparr>"
  show ?thesis
  proof (cases "length (data state) + 1 > n")
    case True
    with assms(1,3) old have "xs \<noteq> []"
      by (cases xs) auto
    then obtain y ys where xs: "xs = y # ys"
      by (cases xs) auto
    have nth: "(ys @ [x, ?new]) ! length ys = x"
      by (simp add: nth_append)
    have upd: "set_txRate_of_pushed (ys @ [x, ?new]) r = ys @ [x, ?new\<lparr>txRate := r\<rparr>]" for r
      using set_txRate_of_pushed_snoc [of "ys @ [x]" ?new r] by simp
    from True show ?thesis
      by (simp add: rootReducer_def Let_def old xs nth upd sample_of_def)
  next
    case False
    have nth: "(xs @ [x, ?new]) ! length xs = x"
      by (simp add: nth_append)
    have upd: "set_txRate_of_pushed (xs @ [x, ?new]) r = xs @ [x, ?new\<lparr>txRate := r\<rparr>]" for r
      using set_txRate_of_pushed_snoc [of "xs @ [x]" ?new r] by simp
    from False show ?thesis
      by (simp add: rootReducer_def Let_def old nth upd sample_of_def)
  qed
qed

text \<open>C10, as stated, fails on finiteness: the guard excludes a zero divisor, not a quotient
  too large for the format. With the previous sample at time \<^verbatim>\<open>0\<close> with \<^verbatim>\<open>0\<close> transactions and
  \<^verbatim>\<open>txRate\<close> 0, and a payload at time \<^verbatim>\<open>5e-324\<close> with 1 transaction, \<^verbatim>\<open>timeDiff\<close> is \<^verbatim>\<open>-5e-324\<close>,
  not zero, and \<^verbatim>\<open>Math.max(0, -1 / -5e-324)\<close> is \<^verbatim>\<open>Infinity\<close>.\<close>

theorem txRate_overflow_counterexample:
  "finite_nonneg (txRate first_sample) \<and>
   is_finite (time first_sample) \<and> is_finite (transactions first_sample) \<and>
   is_finite (payload_time tiny_step_payload) \<and>
   is_finite (payload_transactions tiny_step_payload) \<and>
   js_sub (time first_sample) (payload_time tiny_step_payload) \<noteq> Fin 0 \<and>
   new_txRate (rootReducer 200 \<lparr>data = [first_sample]\<rparr> (Dashboard_update tiny_step_payload)) =
     Some PosInf"
proof -
  have d1: "to_double (- 1) = Fin (- 1)"
    using to_double_between [of 0 "- 1"]
    by (simp add: pow2_def round_half_even_def Let_def)
  have d2: "to_double (- pow2 (- 1074)) = Fin (- pow2 (- 1074))"
    using to_double_between [of "- 1074" "- pow2 (- 1074)"]
    by (simp add: pow2_def round_half_even_def Let_def)
  have d3: "to_double (1 / pow2 (- 1074)) = PosInf"
    using to_double_between [of "1074" "1 / pow2 (- 1074)"]
    by (simp add: pow2_def round_half_even_def Let_def)
  have nz: "pow2 (- 1074) \<noteq> 0"
    by (simp add: pow2_def)
  have later: "rootReducer 200 \<lparr>data = [first_sample]\<rparr> (Dashboard_update tiny_step_payload) =
      Inr (\<lparr>data = [first_sample]\<rparr>\<lparr>data := [first_sample] @
        [sample_of tiny_step_payload (Some PosInf)]\<rparr>)"
    using rootReducer_later [of 200 "\<lparr>data = [first_sample]\<rparr>" tiny_step_payload]
    by (simp add: first_sample_def tiny_step_payload_def d1 d2 d3 nz)
  show ?thesis
    unfolding later
    by (simp add: new_txRate_def sample_of_def finite_nonneg_def is_finite_def
        first_sample_def tiny_step_payload_def d2 nz)
qed

text \<open>C10, amended. With a positive \<^verbatim>\<open>DASHBOARD_CHART_TIME\<close>, finite times, a finite
  difference of the transaction counts and a previous \<^verbatim>\<open>txRate\<close> that is finite and not
  negative, the reducer returns a state whose new sample has a \<^verbatim>\<open>txRate\<close> that is never \<^verbatim>\<open>NaN\<close>
  and never negative: a finite number from 0 upwards, or \<^verbatim>\<open>Infinity\<close>. It is 0 when the new
  sample is the only one left in the list, the previous sample's \<^verbatim>\<open>txRate\<close> when \<^verbatim>\<open>timeDiff\<close>
  is zero (as it is when the two times are equal), and \<^verbatim>\<open>Math.max(0, txDiff / timeDiff)\<close> with
  a non-zero \<^verbatim>\<open>timeDiff\<close> otherwise.\<close>

theorem dashboard_update_txRate:
  assumes window: "0 < n"
    and prev: "data state \<noteq> [] \<longrightarrow>
         finite_nonneg (txRate (last (data state))) \<and>
         is_finite (time (last (data state))) \<and>
         is_finite (js_sub (transactions (last (data state))) (payload_transactions p))"
    and arrived: "is_finite (payload_time p)"
  shows "nonneg_or_infinite (new_txRate (rootReducer n state (Dashboard_update p))) \<and>
         new_txRate (rootReducer n state (Dashboard_update p)) =
           (if data state = [] \<or> (length (data state) = 1 \<and> n = 1) then Some (Fin 0)
            else if js_sub (time (last (data state))) (payload_time p) = Fin 0
              then txRate (last (data state))
            else Some (math_max (Fin 0)
                   (js_div (js_sub (transactions (last (data state))) (payload_transactions p))
                           (js_sub (time (last (data state))) (payload_time p))))) \<and>
         (time (last (data state)) = payload_time p \<longrightarrow>
            js_sub (time (last (data state))) (payload_time p) = Fin 0)"
proof -
  obtain t2 where t2: "payload_time p = Fin t2"
    using arrived by (cases "payload_time p") (simp_all add: is_finite_def)
  have same: "js_sub (time (last (data state))) (payload_time p) = Fin 0"
    if "time (last (data state)) = payload_time p"
    using that t2 by (simp add: to_double_def)
  have formula: "new_txRate (rootReducer n state (Dashboard_update p)) =
           (if data state = [] \<or> (length (data state) = 1 \<and> n = 1) then Some (Fin 0)
            else if js_sub (time (last (data state))) (payload_time p) = Fin 0
              then txRate (last (data state))
            else Some (math_max (Fin 0)
                   (js_div (js_sub (transactions (last (data state))) (payload_transactions p))
                           (js_sub (time (last (data state))) (payload_time p)))))"
  proof (cases "data state = [] \<or> (length (data state) = 1 \<and> n = 1)")
    case True
    then show ?thesis
      unfolding rootReducer_first [OF window True, of p] if_P [OF True]
      by (simp add: new_txRate_def sample_of_def)
  next
    case False
    then have ne: "data state \<noteq> []" and more: "\<not> (length (data state) = 1 \<and> n = 1)"
      by auto
    show ?thesis
      unfolding rootReducer_later [OF window ne more, of p] if_not_P [OF False]
      by (simp add: new_txRate_def sample_of_def)
  qed
  have range: "nonneg_or_infinite (new_txRate (rootReducer n state (Dashboard_update p)))"
  proof (cases "data state = [] \<or> (length (data state) = 1 \<and> n = 1)")
    case True
    then show ?thesis
      unfolding formula if_P [OF True] by (simp add: nonneg_or_infinite_def)
  next
    case False
    then have ne: "data state \<noteq> []" by auto
    from prev ne have rate: "finite_nonneg (txRate (last (data state)))"
      and fin_t: "is_finite (time (last (data state)))"
      and fin_d: "is_finite (js_sub (transactions (last (data state))) (payload_transactions p))"
      by simp_all
    obtain t1 where t1: "time (last (data state)) = Fin t1"
      using fin_t by (cases "time (last (data state))") (simp_all add: is_finite_def)
    obtain d where d: "js_sub (transactions (last (data state))) (payload_transactions p) = Fin d"
      using fin_d
      by (cases "js_sub (transactions (last (data state))) (payload_transactions p)")
         (simp_all add: is_finite_def)
    have no_nan: "js_sub (time (last (data state))) (payload_time p) \<noteq> NaN"
      unfolding t1 t2 by (rule js_sub_finite_not_NaN)
    show ?thesis
    proof (cases "js_sub (time (last (data state))) (payload_time p) = Fin 0")
      case True
      from rate show ?thesis
        unfolding formula if_not_P [OF False] if_P [OF True]
        by (auto simp: nonneg_or_infinite_def finite_nonneg_def split: option.splits number.splits)
    next
      case nonzero: False
      show ?thesis
        unfolding formula if_not_P [OF False] if_not_P [OF nonzero] d
        by (rule rate_nonneg_or_infinite [OF no_nan nonzero])
    qed
  qed
  from range formula same show ?thesis by blast
qed

theorem dashboard_update_txRate_witness:
  "(0::nat) < 200 \<and> finite_nonneg (txRate earlier_sample) \<and>
   is_finite (time earlier_sample) \<and> is_finite (payload_time later_payload) \<and>
   is_finite (js_sub (transactions earlier_sample) (payload_transactions later_payload)) \<and>
   new_txRate (rootReducer 200 \<lparr>data = [earlier_sample]\<rparr> (Dashboard_update later_payload)) =
     Some (Fin 2)"
proof -
  have d1: "to_double (- 8) = Fin (- 8)"
    using to_double_between [of 3 "- 8"]
    by (simp add: pow2_def round_half_even_def Let_def)
  have d2: "to_double (- 4) = Fin (- 4)"
    using to_double_between [of 2 "- 4"]
    by (simp add: pow2_def round_half_even_def Let_def)
  have d3: "to_double 2 = Fin 2"
    using to_double_between [of 1 2]
    by (simp add: pow2_def round_half_even_def Let_def)
  show ?thesis
    using dashboard_update_txRate [of 200 "\<lparr>data = [earlier_sample]\<rparr>" later_payload]
    by (simp add: earlier_sample_def later_payload_def d1 d2 d3 finite_nonneg_def
        is_finite_def)
qed

end
